theory Spec2Isabelle
  imports Complex_Main
begin

section \<open>Endpoint lifecycle scripts: a shallow embedding\<close>

text \<open>
  The embedding covers \<^verbatim>\<open>cleanup.py\<close> (class \<^verbatim>\<open>SageMakerCleanup\<close>) and
  \<^verbatim>\<open>deploy_model.py\<close> (class \<^verbatim>\<open>SageMakerDeployer\<close> and \<^verbatim>\<open>main\<close>).

  Conventions.
  \<^item> Strings are byte lists; \<^verbatim>\<open>str.lower\<close> is modelled on the ASCII letters.
  \<^item> An exception is a value \<open>Exn kind message\<close>; \<^verbatim>\<open>str(e)\<close> is the message. Only
    instances of \<^verbatim>\<open>Exception\<close> are modelled (no \<^verbatim>\<open>KeyboardInterrupt\<close>).
  \<^item> The libraries the scripts call (boto3, sagemaker, the clock) are not part of the
    repository: their operations are the fields of a record \<open>host\<close>, each a state
    transformer on an arbitrary world \<open>'w\<close> that either raises or returns.
  \<^item> The session state carries the world, the environment variables, the pending
    lines of standard input, the strings written by \<^verbatim>\<open>print\<close> and \<^verbatim>\<open>input\<close>,
    the files, and a trace of the library calls made with their outcome.
  \<^item> Python floats are modelled by the rationals their decimal literals denote, with
    exact sums and products and with the exact value rounded when it is printed. The
    code computes in binary doubles: the two agree on the values the theorems below
    evaluate (a rate times two, the default rate times a count below \<open>2 ^ 53\<close>), and
    may differ in the last printed digit elsewhere (the code prints 1.515 to two
    places as 1.51, the exact decimal rounds to 1.52).
\<close>

subsection \<open>Exceptions\<close>

datatype exn_kind =
  ClientError | ValueError | KeyError | EOFError | FileNotFoundError
  | PermissionError | JSONDecodeError | RuntimeError

datatype exn = Exn exn_kind string

fun kind :: "exn \<Rightarrow> exn_kind" where
  "kind (Exn k m) = k"

fun str_exn :: "exn \<Rightarrow> string" where
  "str_exn (Exn k m) = m"

text \<open>\<^verbatim>\<open>except ValueError\<close> also catches the subclass \<^verbatim>\<open>JSONDecodeError\<close>.\<close>

definition is_ValueError :: "exn \<Rightarrow> bool" where
  "is_ValueError e = (kind e = ValueError \<or> kind e = JSONDecodeError)"

subsection \<open>Data of the remote platform\<close>

text \<open>One entry of \<^verbatim>\<open>response['Endpoints']\<close>; \<open>CreationTime\<close> is its printed form.\<close>

record endpoint =
  EndpointName :: string
  EndpointStatus :: string
  CreationTime :: string

text \<open>\<^verbatim>\<open>response.get('Endpoints', [])\<close>: the key may be absent.\<close>

record list_response =
  Endpoints :: "endpoint list option"

text \<open>
  One entry of \<^verbatim>\<open>config_response['ProductionVariants']\<close>. A serverless variant has
  neither \<^verbatim>\<open>InstanceType\<close> nor \<^verbatim>\<open>InitialInstanceCount\<close>; reading them raises
  \<^verbatim>\<open>KeyError\<close>.
\<close>

record variant =
  InstanceType :: "string option"
  InitialInstanceCount :: "int option"

record config_response =
  ProductionVariants :: "variant list"

record predictor =
  predictor_endpoint :: string

text \<open>The arguments of \<^verbatim>\<open>HuggingFaceModel(...)\<close> and of \<^verbatim>\<open>.deploy(...)\<close>.\<close>

record model_spec =
  ms_role :: string
  transformers_version :: string
  pytorch_version :: string
  py_version :: string
  model_server_workers :: nat
  ms_env :: "(string \<times> string option) list"
  ms_region :: string

record deploy_args =
  da_initial_instance_count :: int
  da_instance_type :: "string option"
  da_endpoint_name :: string
  da_wait :: bool
  model_data_download_timeout :: nat
  container_startup_health_check_timeout :: nat

record gen_parameters =
  max_new_tokens :: nat
  temperature :: rat
  do_sample :: bool
  return_full_text :: bool

record payload =
  inputs :: string
  parameters :: gen_parameters

text \<open>\<^verbatim>\<open>datetime.now()\<close>, by the two renderings the scripts use.\<close>

record datetime =
  strftime_Ymd_HMS :: string
  isoformat :: string

subsection \<open>The library calls\<close>

datatype call =
  ListEndpoints "string option" nat
  | DeleteEndpoint string
  | DeleteEndpointConfig string
  | DescribeEndpointConfig string
  | NewSession string
  | GetExecutionRole
  | GetRole string
  | NewModel model_spec
  | Deploy model_spec deploy_args
  | Predict predictor payload

record 'w host =
  api_list_endpoints :: "string option \<Rightarrow> nat \<Rightarrow> 'w \<Rightarrow> (exn + list_response) \<times> 'w"
  api_delete_endpoint :: "string \<Rightarrow> 'w \<Rightarrow> (exn + unit) \<times> 'w"
  api_delete_endpoint_config :: "string \<Rightarrow> 'w \<Rightarrow> (exn + unit) \<times> 'w"
  api_describe_endpoint_config :: "string \<Rightarrow> 'w \<Rightarrow> (exn + config_response) \<times> 'w"
  api_session :: "string \<Rightarrow> 'w \<Rightarrow> (exn + unit) \<times> 'w"
  api_get_execution_role :: "'w \<Rightarrow> (exn + string) \<times> 'w"
  api_get_role :: "string \<Rightarrow> 'w \<Rightarrow> (exn + string) \<times> 'w"
  api_model :: "model_spec \<Rightarrow> 'w \<Rightarrow> (exn + unit) \<times> 'w"
  api_deploy :: "model_spec \<Rightarrow> deploy_args \<Rightarrow> 'w \<Rightarrow> (exn + predictor) \<times> 'w"
  api_predict :: "predictor \<Rightarrow> payload \<Rightarrow> 'w \<Rightarrow> (exn + string) \<times> 'w"
  api_now :: "'w \<Rightarrow> datetime \<times> 'w"

subsection \<open>Files\<close>

text \<open>
  The \<^verbatim>\<open>json\<close> module is a library: a file is identified with the JSON document it
  holds, so that \<^verbatim>\<open>json.load\<close> returns what \<^verbatim>\<open>json.dump\<close> wrote. The documents are
  the objects whose values are strings or \<^verbatim>\<open>null\<close> (the shape \<^verbatim>\<open>main\<close> writes); any
  other text is \<open>NotJson m\<close>, on which \<^verbatim>\<open>json.load\<close> raises \<^verbatim>\<open>JSONDecodeError\<close> with
  message \<open>m\<close>.
\<close>

datatype jvalue = JNull | JStr string

datatype file_content = Json "(string \<times> jvalue) list" | NotJson string

subsection \<open>The session state\<close>

record 'w state =
  world :: 'w
  environ :: "string \<Rightarrow> string option"
  stdin :: "string list"
  out :: "string list"
  files :: "string \<Rightarrow> file_content option"
  read_fault :: "string \<Rightarrow> exn option"
  write_fault :: "string \<Rightarrow> exn option"
  trace :: "(call \<times> exn option) list"

definition print :: "string \<Rightarrow> 'w state \<Rightarrow> 'w state" where
  "print line s = s\<lparr>out := out s @ [line]\<rparr>"

text \<open>\<^verbatim>\<open>input(prompt)\<close> writes the prompt and reads a line; at end of input it raises.\<close>

definition input :: "string \<Rightarrow> 'w state \<Rightarrow> (exn + string) \<times> 'w state" where
  "input prompt s =
     (let s1 = print prompt s in
      case stdin s1 of
        [] \<Rightarrow> (Inl (Exn EOFError ''EOF when reading a line''), s1)
      | l # ls \<Rightarrow> (Inr l, s1\<lparr>stdin := ls\<rparr>))"

definition getenv :: "string \<Rightarrow> 'w state \<Rightarrow> string option" where
  "getenv k s = environ s k"

definition getenv_default :: "string \<Rightarrow> string \<Rightarrow> 'w state \<Rightarrow> string" where
  "getenv_default k d s = (case environ s k of None \<Rightarrow> d | Some v \<Rightarrow> v)"

text \<open>Python's \<^verbatim>\<open>a or b\<close> on optional strings: \<^verbatim>\<open>None\<close> and \<^verbatim>\<open>''\<close> are falsy.\<close>

definition py_or :: "string option \<Rightarrow> string option \<Rightarrow> string option" where
  "py_or a b = (case a of None \<Rightarrow> b | Some v \<Rightarrow> if v = [] then b else Some v)"

definition error_of :: "exn + 'a \<Rightarrow> exn option" where
  "error_of r = (case r of Inl e \<Rightarrow> Some e | Inr v \<Rightarrow> None)"

text \<open>A library call: run it on the world and record it with its outcome.\<close>

definition invoke :: "call \<Rightarrow> ('w \<Rightarrow> (exn + 'a) \<times> 'w) \<Rightarrow> 'w state \<Rightarrow> (exn + 'a) \<times> 'w state" where
  "invoke c f s =
     (case f (world s) of
        (r, w) \<Rightarrow> (r, s\<lparr>world := w, trace := trace s @ [(c, error_of r)]\<rparr>))"

subsection \<open>Rendering\<close>

text \<open>
  \<^verbatim>\<open>str.lower\<close> on the letters A to Z. No character outside ASCII becomes one of
  the letters y, e, s when lowered, so a comparison of the result with \<^verbatim>\<open>'yes'\<close> is
  decided by these.
\<close>

definition lower_char :: "char \<Rightarrow> char" where
  "lower_char c =
     (case map_of (zip ''ABCDEFGHIJKLMNOPQRSTUVWXYZ'' ''abcdefghijklmnopqrstuvwxyz'') c of
        None \<Rightarrow> c
      | Some l \<Rightarrow> l)"

definition lower :: "string \<Rightarrow> string" where
  "lower s = map lower_char s"

definition digit_char :: "nat \<Rightarrow> char" where
  "digit_char d = ''0123456789'' ! d"

fun str_nat :: "nat \<Rightarrow> string" where
  "str_nat n = (if n < 10 then [digit_char n] else str_nat (n div 10) @ [digit_char (n mod 10)])"

declare str_nat.simps [simp del]

definition str_int :: "int \<Rightarrow> string" where
  "str_int i = (if i < 0 then CHR ''-'' # str_nat (nat (- i)) else str_nat (nat i))"

text \<open>
  \<^verbatim>\<open>format(x, '.df')\<close>: \<open>x\<close> rounded to \<open>d\<close> decimals, ties to even, the fraction
  padded with zeros to \<open>d\<close> digits.
\<close>

definition round_half_even :: "rat \<Rightarrow> int" where
  "round_half_even x =
     (let q = \<lfloor>x\<rfloor>; r = x - of_int q in
      if r < 1 / 2 then q else if 1 / 2 < r then q + 1
      else if even q then q else q + 1)"

definition zfill :: "nat \<Rightarrow> string \<Rightarrow> string" where
  "zfill d s = replicate (d - length s) CHR ''0'' @ s"

definition format_f :: "nat \<Rightarrow> rat \<Rightarrow> string" where
  "format_f d x =
     (let m = round_half_even (\<bar>x\<bar> * 10 ^ d);
          body = str_nat (nat (m div 10 ^ d)) @
                 (if d = 0 then [] else CHR ''.'' # zfill d (str_nat (nat (m mod 10 ^ d))))
      in if x < 0 then CHR ''-'' # body else body)"

subsection \<open>cleanup.py: listing\<close>

text \<open>
  \<^verbatim>\<open>list_all_endpoints\<close>: every exception of the body is caught, reported and turned
  into the empty list.
\<close>

definition print_endpoint :: "endpoint \<Rightarrow> 'w state \<Rightarrow> 'w state" where
  "print_endpoint ep s =
     (let status = (if EndpointStatus ep = ''InService'' then ''Active'' else ''Inactive'');
          s1 = print (''  - '' @ EndpointName ep @ '' ('' @ status @ '')'') s
      in print (''    Created: '' @ CreationTime ep) s1)"

definition list_all_endpoints :: "'w host \<Rightarrow> 'w state \<Rightarrow> endpoint list \<times> 'w state" where
  "list_all_endpoints h s =
     (case invoke (ListEndpoints None 50) (api_list_endpoints h None 50) s of
        (Inl e, s1) \<Rightarrow> ([], print (''Failed to list endpoints: '' @ str_exn e) s1)
      | (Inr response, s1) \<Rightarrow>
          (let endpoints = (case Endpoints response of None \<Rightarrow> [] | Some eps \<Rightarrow> eps) in
           if endpoints \<noteq> []
           then (endpoints, fold print_endpoint endpoints (print ''All endpoints:'' s1))
           else (endpoints, print ''No endpoints found.'' s1)))"

subsection \<open>cleanup.py: deleting\<close>

definition delete_endpoint :: "'w host \<Rightarrow> string \<Rightarrow> bool \<Rightarrow> 'w state \<Rightarrow> bool \<times> 'w state" where
  "delete_endpoint h endpoint_name delete_config s =
     (let s1 = print (''Deleting endpoint: '' @ endpoint_name) s in
      case invoke (DeleteEndpoint endpoint_name) (api_delete_endpoint h endpoint_name) s1 of
        (Inl e, s2) \<Rightarrow>
          (False, print (''Failed to delete endpoint '' @ endpoint_name @ '': '' @ str_exn e) s2)
      | (Inr u, s2) \<Rightarrow>
          (let s3 = print (''Endpoint '' @ endpoint_name @ '' deletion initiated'') s2 in
           if delete_config
           then (case invoke (DeleteEndpointConfig endpoint_name)
                        (api_delete_endpoint_config h endpoint_name) s3 of
                   (Inl e, s4) \<Rightarrow>
                     (True, print (''Could not delete endpoint config: '' @ str_exn e) s4)
                 | (Inr u', s4) \<Rightarrow>
                     (True, print (''Endpoint config '' @ endpoint_name @ '' deleted'') s4))
           else (True, s3)))"

text \<open>The loop of \<^verbatim>\<open>delete_all_endpoints\<close> (lines 73 to 76), from a given count.\<close>

fun delete_loop :: "'w host \<Rightarrow> endpoint list \<Rightarrow> nat \<Rightarrow> 'w state \<Rightarrow> nat \<times> 'w state" where
  "delete_loop h [] success_count s = (success_count, s)"
| "delete_loop h (ep # eps) success_count s =
     (case delete_endpoint h (EndpointName ep) True s of
        (ok, s1) \<Rightarrow> delete_loop h eps (if ok then success_count + 1 else success_count) s1)"

text \<open>Lines 73 to 79: the loop, the report and the result.\<close>

definition delete_listed :: "'w host \<Rightarrow> endpoint list \<Rightarrow> 'w state \<Rightarrow> bool \<times> 'w state" where
  "delete_listed h endpoints s =
     (case delete_loop h endpoints 0 s of
        (success_count, s1) \<Rightarrow>
          (success_count = length endpoints,
           print (''\<newline>Successfully deleted '' @ str_nat success_count @ ''/'' @
                  str_nat (length endpoints) @ '' endpoints'') s1))"

definition print_name :: "endpoint \<Rightarrow> 'w state \<Rightarrow> 'w state" where
  "print_name ep s = print (''  - '' @ EndpointName ep) s"

text \<open>
  \<^verbatim>\<open>delete_all_endpoints\<close>. The call of \<^verbatim>\<open>input\<close> is outside every \<^verbatim>\<open>try\<close>: at end
  of input the function raises.
\<close>

definition delete_all_endpoints :: "'w host \<Rightarrow> bool \<Rightarrow> 'w state \<Rightarrow> (exn + bool) \<times> 'w state" where
  "delete_all_endpoints h confirm s =
     (case list_all_endpoints h s of
        (endpoints, s1) \<Rightarrow>
          if endpoints = [] then (Inr True, print ''No endpoints to delete.'' s1)
          else if confirm then
            (let s2 = print (''\<newline>This will delete '' @ str_nat (length endpoints) @
                             '' endpoint(s):'') s1;
                 s3 = fold print_name endpoints s2
             in case input ''\<newline>Are you sure? (type 'yes' to confirm): '' s3 of
                  (Inl e, s4) \<Rightarrow> (Inl e, s4)
                | (Inr confirmation, s4) \<Rightarrow>
                    if lower confirmation \<noteq> ''yes''
                    then (Inr False, print ''Deletion cancelled.'' s4)
                    else (case delete_listed h endpoints s4 of (b, s5) \<Rightarrow> (Inr b, s5)))
          else (case delete_listed h endpoints s1 of (b, s5) \<Rightarrow> (Inr b, s5)))"

subsection \<open>cleanup.py: deleting from the record file\<close>






subsection \<open>cleanup.py: cost estimation\<close>

text \<open>The table \<^verbatim>\<open>instance_costs\<close> of \<^verbatim>\<open>estimate_costs\<close> (lines 113 to 124).\<close>

definition instance_costs :: "(string \<times> rat) list" where
  "instance_costs =
     [(''ml.g4dn.xlarge'', 736 / 1000),
      (''ml.g4dn.2xlarge'', 94 / 100),
      (''ml.g4dn.4xlarge'', 1505 / 1000),
      (''ml.g5.xlarge'', 1408 / 1000),
      (''ml.g5.2xlarge'', 1515 / 1000),
      (''ml.g5.4xlarge'', 203 / 100),
      (''ml.g5.8xlarge'', 306 / 100),
      (''ml.p3.2xlarge'', 3825 / 1000),
      (''ml.p3.8xlarge'', 14688 / 1000),
      (''ml.p3.16xlarge'', 28152 / 1000)]"

text \<open>\<^verbatim>\<open>instance_costs.get(instance_type, 2.0)\<close>.\<close>

definition instance_costs_get :: "string \<Rightarrow> rat" where
  "instance_costs_get instance_type =
     (case map_of instance_costs instance_type of None \<Rightarrow> 2 | Some r \<Rightarrow> r)"

text \<open>Line 136: the hourly cost of one variant.\<close>

definition hourly_cost :: "string \<Rightarrow> int \<Rightarrow> rat" where
  "hourly_cost instance_type instance_count =
     instance_costs_get instance_type * of_int instance_count"

definition print_variant :: "string \<Rightarrow> string \<Rightarrow> int \<Rightarrow> 'w state \<Rightarrow> 'w state" where
  "print_variant name instance_type instance_count s =
     (let s1 = print (''  '' @ name @ '':'') s;
          s2 = print (''    Instance: '' @ instance_type @ '' (x'' @ str_int instance_count @ '')'') s1
      in print (''    Cost: $'' @ format_f 3 (hourly_cost instance_type instance_count) @ ''/hour'') s2)"

text \<open>
  The loop over the variants of one endpoint (lines 133 to 141). A missing key raises
  \<^verbatim>\<open>KeyError\<close> and ends the loop; the costs added before it stay in the total.
\<close>

fun variants_loop ::
  "string \<Rightarrow> variant list \<Rightarrow> rat \<Rightarrow> 'w state \<Rightarrow> exn option \<times> rat \<times> 'w state" where
  "variants_loop name [] total_hourly_cost s = (None, total_hourly_cost, s)"
| "variants_loop name (v # vs) total_hourly_cost s =
     (case InstanceType v of
        None \<Rightarrow> (Some (Exn KeyError ''InstanceType''), total_hourly_cost, s)
      | Some instance_type \<Rightarrow>
          (case InitialInstanceCount v of
             None \<Rightarrow> (Some (Exn KeyError ''InitialInstanceCount''), total_hourly_cost, s)
           | Some instance_count \<Rightarrow>
               variants_loop name vs
                 (total_hourly_cost + hourly_cost instance_type instance_count)
                 (print_variant name instance_type instance_count s)))"

text \<open>The loop over the active endpoints (lines 127 to 144).\<close>

fun endpoints_loop :: "'w host \<Rightarrow> endpoint list \<Rightarrow> rat \<Rightarrow> 'w state \<Rightarrow> rat \<times> 'w state" where
  "endpoints_loop h [] total_hourly_cost s = (total_hourly_cost, s)"
| "endpoints_loop h (ep # eps) total_hourly_cost s =
     (case invoke (DescribeEndpointConfig (EndpointName ep))
             (api_describe_endpoint_config h (EndpointName ep)) s of
        (Inl e, s1) \<Rightarrow>
          endpoints_loop h eps total_hourly_cost
            (print (''  '' @ EndpointName ep @ '': Unable to get cost info'') s1)
      | (Inr config_response, s1) \<Rightarrow>
          (case variants_loop (EndpointName ep) (ProductionVariants config_response)
                  total_hourly_cost s1 of
             (None, t, s2) \<Rightarrow> endpoints_loop h eps t s2
           | (Some e, t, s2) \<Rightarrow>
               endpoints_loop h eps t
                 (print (''  '' @ EndpointName ep @ '': Unable to get cost info'') s2)))"

text \<open>
  \<^verbatim>\<open>estimate_costs\<close>. Nothing in the body raises outside the inner \<^verbatim>\<open>try\<close>, so the
  outer handler (lines 156 to 158) has no branch here.
\<close>

definition estimate_costs :: "'w host \<Rightarrow> 'w state \<Rightarrow> rat \<times> 'w state" where
  "estimate_costs h s =
     (case list_all_endpoints h s of
        (endpoints, s1) \<Rightarrow>
          (let active_endpoints = filter (\<lambda>ep. EndpointStatus ep = ''InService'') endpoints in
           if active_endpoints = []
           then (0, print ''No active endpoints - no ongoing costs'' s1)
           else
             (let s2 = print ''Current cost estimation:'' s1;
                  s3 = print (replicate 40 CHR ''='') s2
              in case endpoints_loop h active_endpoints 0 s3 of
                   (total_hourly_cost, s4) \<Rightarrow>
                     (let daily_cost = total_hourly_cost * 24;
                          monthly_cost = daily_cost * 30;
                          s5 = print ''\<newline>Total estimated costs:'' s4;
                          s6 = print (''  Hourly: $'' @ format_f 2 total_hourly_cost) s5;
                          s7 = print (''  Daily: $'' @ format_f 2 daily_cost) s6;
                          s8 = print (''  Monthly: $'' @ format_f 2 monthly_cost) s7
                      in (total_hourly_cost, s8)))))"

subsection \<open>deploy_model.py\<close>

record deployer =
  region :: string
  role :: string

text \<open>
  \<^verbatim>\<open>SageMakerDeployer.__init__\<close>. Only a \<^verbatim>\<open>ValueError\<close> of
  \<^verbatim>\<open>get_execution_role\<close> is handled; the two calls of \<^verbatim>\<open>input\<close> and the session
  are outside every \<^verbatim>\<open>try\<close>.
\<close>

definition ask_role :: "string \<Rightarrow> 'w state \<Rightarrow> (exn + deployer) \<times> 'w state" where
  "ask_role rg s =
     (case input ''Role ARN: '' s of
        (Inl e, s1) \<Rightarrow> (Inl e, s1)
      | (Inr r, s1) \<Rightarrow> (Inr \<lparr>region = rg, role = r\<rparr>, s1))"

definition SageMakerDeployer_init ::
  "'w host \<Rightarrow> string option \<Rightarrow> 'w state \<Rightarrow> (exn + deployer) \<times> 'w state" where
  "SageMakerDeployer_init h region_arg s =
     (let rg = (case py_or region_arg (Some (getenv_default ''AWS_REGION'' ''us-east-1'' s)) of
                  None \<Rightarrow> [] | Some r \<Rightarrow> r)
      in case invoke (NewSession rg) (api_session h rg) s of
           (Inl e, s1) \<Rightarrow> (Inl e, s1)
         | (Inr u, s1) \<Rightarrow>
             (case invoke GetExecutionRole (api_get_execution_role h) s1 of
                (Inr r, s2) \<Rightarrow>
                  (Inr \<lparr>region = rg, role = r\<rparr>, print (''Found execution role: '' @ r) s2)
              | (Inl e, s2) \<Rightarrow>
                  if is_ValueError e then
                    (case getenv ''SAGEMAKER_ROLE_NAME'' s2 of
                       None \<Rightarrow>
                         ask_role rg (print ''SAGEMAKER_ROLE_NAME not found in .env file'' s2)
                     | Some role_name \<Rightarrow>
                         if role_name = [] then
                           ask_role rg (print ''SAGEMAKER_ROLE_NAME not found in .env file'' s2)
                         else
                           (case invoke (GetRole role_name) (api_get_role h role_name) s2 of
                              (Inr arn, s3) \<Rightarrow>
                                (Inr \<lparr>region = rg, role = arn\<rparr>,
                                 print (''Found role ARN: '' @ arn) s3)
                            | (Inl e', s3) \<Rightarrow>
                                ask_role rg (print (''Error finding role: '' @ str_exn e') s3)))
                  else (Inl e, s2)))"

text \<open>The dictionary \<^verbatim>\<open>deploy_model\<close> returns.\<close>

record result =
  status :: string
  endpoint_name :: "string option"
  result_predictor :: "predictor option"
  error :: "string option"

definition str_opt :: "string option \<Rightarrow> string" where
  "str_opt x = (case x of None \<Rightarrow> ''None'' | Some v \<Rightarrow> v)"

definition test_payload :: payload where
  "test_payload =
     \<lparr>inputs = ''Generate a SQL query to find all customers:'',
      parameters = \<lparr>max_new_tokens = 100, temperature = 7 / 10, do_sample = True,
                    return_full_text = False\<rparr>\<rparr>"

definition huggingface_model :: "deployer \<Rightarrow> string option \<Rightarrow> 'w state \<Rightarrow> model_spec" where
  "huggingface_model self model_id s =
     \<lparr>ms_role = role self,
      transformers_version = ''4.49.0'',
      pytorch_version = ''2.6.0'',
      py_version = ''py312'',
      model_server_workers = 1,
      ms_env =
        [(''HF_MODEL_ID'', model_id),
         (''HF_TASK'', Some ''text-generation''),
         (''SAGEMAKER_MODEL_SERVER_TIMEOUT'', Some (getenv_default ''MODEL_SERVER_TIMEOUT'' ''600'' s)),
         (''SAGEMAKER_MODEL_SERVER_WORKERS'', Some ''1''),
         (''MAX_CONTEXT_LENGTH'', Some (getenv_default ''MAX_CONTEXT_LENGTH'' ''4096'' s)),
         (''MAX_NEW_TOKENS'', Some (getenv_default ''MAX_NEW_TOKENS'' ''512'' s)),
         (''SM_NUM_GPUS'', Some ''1''),
         (''TRUST_REMOTE_CODE'', Some ''true''),
         (''PYTORCH_CUDA_ALLOC_CONF'', Some ''expandable_segments:True''),
         (''CUDA_LAUNCH_BLOCKING'', Some ''1'')],
      ms_region = region self\<rparr>"

text \<open>The arguments of \<^verbatim>\<open>huggingface_model.deploy\<close> (lines 77 to 86).\<close>

definition deploy_arguments :: "int \<Rightarrow> string option \<Rightarrow> string \<Rightarrow> deploy_args" where
  "deploy_arguments initial_instance_count instance_type name =
     \<lparr>da_initial_instance_count = initial_instance_count,
      da_instance_type = instance_type,
      da_endpoint_name = name,
      da_wait = True,
      model_data_download_timeout = 1200,
      container_startup_health_check_timeout = 600\<rparr>"

definition deploy_failed :: "exn \<Rightarrow> 'w state \<Rightarrow> result \<times> 'w state" where
  "deploy_failed e s =
     (\<lparr>status = ''failed'', endpoint_name = None, result_predictor = None,
       error = Some (str_exn e)\<rparr>,
      print (''Deployment failed: '' @ str_exn e) s)"

text \<open>Lines 92 to 115: the single test call and the result.\<close>

definition test_endpoint :: "'w host \<Rightarrow> string \<Rightarrow> predictor \<Rightarrow> 'w state \<Rightarrow> result \<times> 'w state" where
  "test_endpoint h name p s =
     (let s1 = print ''\<newline>Testing the endpoint...'' s;
          res = \<lparr>status = ''success'', endpoint_name = Some name, result_predictor = Some p,
                 error = None\<rparr>
      in case invoke (Predict p test_payload) (api_predict h p test_payload) s1 of
           (Inr response, s2) \<Rightarrow> (res, print (''Test successful: '' @ response) s2)
         | (Inl e, s2) \<Rightarrow>
             (res, print ''You can still use the endpoint manually''
                     (print (''Test failed (endpoint is running): '' @ str_exn e) s2)))"

text \<open>Lines 42 to 44: a missing or empty name is replaced by a timestamped one.\<close>

definition name_or_timestamp :: "'w host \<Rightarrow> string option \<Rightarrow> 'w state \<Rightarrow> string \<times> 'w state" where
  "name_or_timestamp h endpoint_name_arg s =
     (case py_or endpoint_name_arg None of
        Some n \<Rightarrow> (n, s)
      | None \<Rightarrow>
          (case api_now h (world s) of
             (t, w) \<Rightarrow> (''better-sql-agent-'' @ strftime_Ymd_HMS t, s\<lparr>world := w\<rparr>)))"

definition deploy_model ::
  "'w host \<Rightarrow> deployer \<Rightarrow> string option \<Rightarrow> string option \<Rightarrow> int \<Rightarrow> string option \<Rightarrow>
   'w state \<Rightarrow> result \<times> 'w state" where
  "deploy_model h self model_id_arg instance_type_arg initial_instance_count endpoint_name_arg s =
     (let model_id = py_or model_id_arg (getenv ''MODEL_ID'' s);
          instance_type = py_or instance_type_arg (getenv ''INSTANCE_TYPE'' s);
          named = name_or_timestamp h endpoint_name_arg s;
          name = fst named;
          s1 = snd named;
          s2 = print (''Deploying model: '' @ str_opt model_id) s1;
          s3 = print (''Instance type: '' @ str_opt instance_type) s2;
          s4 = print (''Endpoint name: '' @ name) s3;
          spec = huggingface_model self model_id s4
      in case invoke (NewModel spec) (api_model h spec) s4 of
           (Inl e, s5) \<Rightarrow> deploy_failed e s5
         | (Inr u, s5) \<Rightarrow>
             (let s6 = print ''This may take 10-15 minutes...''
                         (print ''Creating SageMaker endpoint...'' s5);
                  args = deploy_arguments initial_instance_count instance_type name
              in case invoke (Deploy spec args) (api_deploy h spec args) s6 of
                   (Inl e, s7) \<Rightarrow> deploy_failed e s7
                 | (Inr p, s7) \<Rightarrow>
                     (let s8 = print ''Model deployed successfully!'' s7;
                          s9 = print (''Endpoint name: '' @ name) s8;
                          s10 = print (''Region: '' @ region self) s9
                      in test_endpoint h name p s10)))"

text \<open>
  \<^verbatim>\<open>main\<close> of \<^verbatim>\<open>deploy_model.py\<close>. Opening the record file for writing is outside
  every \<^verbatim>\<open>try\<close>: a failure there leaves \<^verbatim>\<open>main\<close> through the exception.
\<close>

definition lifecycle_record :: "string \<Rightarrow> datetime \<Rightarrow> 'w state \<Rightarrow> (string \<times> jvalue) list" where
  "lifecycle_record name t s =
     [(''endpoint_name'', JStr name),
      (''instance_type'', (case getenv ''INSTANCE_TYPE'' s of None \<Rightarrow> JNull | Some v \<Rightarrow> JStr v)),
      (''region'', JStr (getenv_default ''AWS_REGION'' ''us-east-1'' s)),
      (''deployed_at'', JStr (isoformat t))]"

definition save_endpoint_info :: "'w host \<Rightarrow> string \<Rightarrow> 'w state \<Rightarrow> exn option \<times> 'w state" where
  "save_endpoint_info h name s =
     (case write_fault s ''endpoint_info.json'' of
        Some e \<Rightarrow> (Some e, s)
      | None \<Rightarrow>
          (case api_now h (world s) of
             (t, w) \<Rightarrow>
               (None,
                s\<lparr>world := w,
                  files := (files s)(''endpoint_info.json'' := Some (Json (lifecycle_record name t s)))\<rparr>)))"

definition main :: "'w host \<Rightarrow> 'w state \<Rightarrow> (exn + result) \<times> 'w state" where
  "main h s =
     (let s1 = print (replicate 50 CHR ''='') (print ''SageMaker Model Deployment'' s) in
      case SageMakerDeployer_init h None s1 of
        (Inl e, s2) \<Rightarrow> (Inl e, s2)
      | (Inr self, s2) \<Rightarrow>
          (case deploy_model h self None None 1 None s2 of
             (res, s3) \<Rightarrow>
               if status res = ''success'' then
                 (let s4 = print ''\<newline>Deployment completed!'' s3 in
                  case endpoint_name res of
                    None \<Rightarrow> (Inl (Exn KeyError ''endpoint_name''), s4)
                  | Some name \<Rightarrow>
                      (let s5 = print (''Endpoint: '' @ name) s4;
                           s6 = print ''\<newline>Remember to delete the endpoint when done to avoid charges'' s5
                       in case save_endpoint_info h name s6 of
                            (Some e, s7) \<Rightarrow> (Inl e, s7)
                          | (None, s7) \<Rightarrow>
                              (Inr res, print ''Endpoint info saved to endpoint_info.json'' s7)))
               else (Inr res, s3)))"

text \<open>\<^verbatim>\<open>SageMakerDeployer.list_endpoints\<close>: as in \<^verbatim>\<open>cleanup.py\<close>, failure gives \<^verbatim>\<open>[]\<close>.\<close>

definition print_active :: "endpoint \<Rightarrow> 'w state \<Rightarrow> 'w state" where
  "print_active ep s =
     print (''    Created: '' @ CreationTime ep)
       (print (''  - '' @ EndpointName ep @ '' ('' @ EndpointStatus ep @ '')'') s)"

definition list_endpoints :: "'w host \<Rightarrow> 'w state \<Rightarrow> endpoint list \<times> 'w state" where
  "list_endpoints h s =
     (case invoke (ListEndpoints (Some ''InService'') 50)
             (api_list_endpoints h (Some ''InService'') 50) s of
        (Inl e, s1) \<Rightarrow> ([], print (''Failed to list endpoints: '' @ str_exn e) s1)
      | (Inr response, s1) \<Rightarrow>
          (let endpoints = (case Endpoints response of None \<Rightarrow> [] | Some eps \<Rightarrow> eps) in
           if endpoints \<noteq> []
           then (endpoints, fold print_active endpoints (print ''Active endpoints:'' s1))
           else (endpoints, print ''No active endpoints found.'' s1)))"

subsection \<open>A simulated platform\<close>

text \<open>
  A small platform on which the functions can be run: the live endpoints, their
  configurations, and switches that make the listing, chosen deletions, the
  configuration deletions or the test call fail.
\<close>

record sim =
  live :: "endpoint list"
  configs :: "(string \<times> variant list) list"
  down :: bool
  stuck :: "string list"
  config_locked :: bool
  predict_fails :: bool

definition sim_list :: "string option \<Rightarrow> nat \<Rightarrow> sim \<Rightarrow> (exn + list_response) \<times> sim" where
  "sim_list status_equals max_results w =
     (if down w then (Inl (Exn ClientError ''connection refused''), w)
      else (Inr \<lparr>Endpoints = Some (take max_results
                    (filter (\<lambda>ep. case status_equals of None \<Rightarrow> True
                                   | Some st \<Rightarrow> EndpointStatus ep = st) (live w)))\<rparr>, w))"

definition sim_delete_endpoint :: "string \<Rightarrow> sim \<Rightarrow> (exn + unit) \<times> sim" where
  "sim_delete_endpoint name w =
     (if name \<in> set (stuck w) \<or> name \<notin> set (map EndpointName (live w))
      then (Inl (Exn ClientError ''cannot delete''), w)
      else (Inr (), w\<lparr>live := filter (\<lambda>ep. EndpointName ep \<noteq> name) (live w)\<rparr>))"

definition sim_delete_endpoint_config :: "string \<Rightarrow> sim \<Rightarrow> (exn + unit) \<times> sim" where
  "sim_delete_endpoint_config name w =
     (if config_locked w \<or> map_of (configs w) name = None
      then (Inl (Exn ClientError ''no such config''), w)
      else (Inr (), w\<lparr>configs := filter (\<lambda>c. fst c \<noteq> name) (configs w)\<rparr>))"

definition sim_describe :: "string \<Rightarrow> sim \<Rightarrow> (exn + config_response) \<times> sim" where
  "sim_describe name w =
     (case map_of (configs w) name of
        None \<Rightarrow> (Inl (Exn ClientError ''no such config''), w)
      | Some vs \<Rightarrow> (Inr \<lparr>ProductionVariants = vs\<rparr>, w))"

definition sim_deploy :: "model_spec \<Rightarrow> deploy_args \<Rightarrow> sim \<Rightarrow> (exn + predictor) \<times> sim" where
  "sim_deploy spec args w =
     (if da_endpoint_name args \<in> set (map EndpointName (live w))
      then (Inl (Exn ClientError ''endpoint exists''), w)
      else (Inr \<lparr>predictor_endpoint = da_endpoint_name args\<rparr>,
            w\<lparr>live := live w @
                 [\<lparr>EndpointName = da_endpoint_name args, EndpointStatus = ''InService'',
                   CreationTime = ''now''\<rparr>],
              configs := configs w @
                 [(da_endpoint_name args,
                   [\<lparr>InstanceType = da_instance_type args,
                     InitialInstanceCount = Some (da_initial_instance_count args)\<rparr>])]\<rparr>))"

definition sim_predict :: "predictor \<Rightarrow> payload \<Rightarrow> sim \<Rightarrow> (exn + string) \<times> sim" where
  "sim_predict p pl w =
     (if predict_fails w then (Inl (Exn ClientError ''model error''), w)
      else (Inr ''SELECT 1'', w))"

definition sim_host :: "sim host" where
  "sim_host =
     \<lparr>api_list_endpoints = sim_list,
      api_delete_endpoint = sim_delete_endpoint,
      api_delete_endpoint_config = sim_delete_endpoint_config,
      api_describe_endpoint_config = sim_describe,
      api_session = (\<lambda>rg w. (Inr (), w)),
      api_get_execution_role = (\<lambda>w. (Inr ''arn:role'', w)),
      api_get_role = (\<lambda>n w. (Inr ''arn:role'', w)),
      api_model = (\<lambda>spec w. (Inr (), w)),
      api_deploy = sim_deploy,
      api_predict = sim_predict,
      api_now = (\<lambda>w. (\<lparr>strftime_Ymd_HMS = ''20250101-120000'',
                         isoformat = ''2025-01-01T12:00:00''\<rparr>, w))\<rparr>"

definition mk_endpoint :: "string \<Rightarrow> string \<Rightarrow> endpoint" where
  "mk_endpoint name st = \<lparr>EndpointName = name, EndpointStatus = st, CreationTime = ''t''\<rparr>"

definition sim_state :: "sim \<Rightarrow> string list \<Rightarrow> sim state" where
  "sim_state w lines =
     \<lparr>world = w, environ = (\<lambda>k. None), stdin = lines, out = [],
      files = (\<lambda>p. None), read_fault = (\<lambda>p. None), write_fault = (\<lambda>p. None), trace = []\<rparr>"


text \<open>Three endpoints; the platform refuses to delete \<open>b\<close>, and \<open>c\<close> has no configuration.\<close>

definition sim_three :: sim where
  "sim_three =
     \<lparr>live = [mk_endpoint ''a'' ''InService'', mk_endpoint ''b'' ''InService'',
              mk_endpoint ''c'' ''Creating''],
      configs = [(''a'', []), (''b'', [])], down = False, stuck = [''b''],
      config_locked = False, predict_fails = False\<rparr>"

text \<open>The listing fails; and a platform with no endpoint.\<close>

definition sim_down :: sim where
  "sim_down =
     \<lparr>live = [mk_endpoint ''a'' ''InService''], configs = [], down = True, stuck = [],
      config_locked = False, predict_fails = False\<rparr>"

definition sim_empty :: sim where
  "sim_empty =
     \<lparr>live = [], configs = [], down = False, stuck = [],
      config_locked = False, predict_fails = False\<rparr>"

text \<open>One endpoint in service on two \<^verbatim>\<open>ml.g5.xlarge\<close>; one on an instance type the table lacks.\<close>

definition sim_g5 :: sim where
  "sim_g5 =
     \<lparr>live = [mk_endpoint ''a'' ''InService''],
      configs = [(''a'', [\<lparr>InstanceType = Some ''ml.g5.xlarge'', InitialInstanceCount = Some 2\<rparr>])],
      down = False, stuck = [], config_locked = False, predict_fails = False\<rparr>"


text \<open>
  An empty platform on which the test call fails; the same with a record file that
  cannot be opened for writing; the deployer and the result \<^verbatim>\<open>main\<close> obtains there.
\<close>

definition sim_flaky :: sim where
  "sim_flaky =
     \<lparr>live = [], configs = [], down = False, stuck = [],
      config_locked = False, predict_fails = True\<rparr>"

definition sim_readonly :: "sim state" where
  "sim_readonly =
     (sim_state sim_flaky [])\<lparr>write_fault :=
        (\<lambda>p. Some (Exn PermissionError ''[Errno 13] Permission denied''))\<rparr>"

definition sim_self :: deployer where
  "sim_self = \<lparr>region = ''us-east-1'', role = ''arn:role''\<rparr>"

definition sim_result :: result where
  "sim_result =
     \<lparr>status = ''success'', endpoint_name = Some ''better-sql-agent-20250101-120000'',
      result_predictor = Some \<lparr>predictor_endpoint = ''better-sql-agent-20250101-120000''\<rparr>,
      error = None\<rparr>"


subsection \<open>The bulk deletion in the words of the specification\<close>

text \<open>
  Section 4.4 of the specification, read on the platform alone: the endpoints are
  deleted one at a time in the given order; after a successful endpoint deletion the
  configuration of the same name is deleted too, whatever comes of it; a failed
  deletion does not stop the loop. The result is the names with whether the platform
  deleted the endpoint, and the platform as the calls left it.
\<close>

fun spec_delete_each :: "'w host \<Rightarrow> string list \<Rightarrow> 'w \<Rightarrow> (string \<times> bool) list \<times> 'w" where
  "spec_delete_each h [] w = ([], w)"
| "spec_delete_each h (n # ns) w =
     (case api_delete_endpoint h n w of
        (Inl e, w1) \<Rightarrow>
          (case spec_delete_each h ns w1 of (D, w') \<Rightarrow> ((n, False) # D, w'))
      | (Inr u, w1) \<Rightarrow>
          (case api_delete_endpoint_config h n w1 of
             (r, w2) \<Rightarrow>
               (case spec_delete_each h ns w2 of (D, w') \<Rightarrow> ((n, True) # D, w'))))"

subsection \<open>Reading the trace\<close>

text \<open>
  The endpoint deletions requested in a trace, in order, each with whether the
  platform accepted it.
\<close>

fun deletions :: "(call \<times> exn option) list \<Rightarrow> (string \<times> bool) list" where
  "deletions [] = []"
| "deletions ((DeleteEndpoint n, r) # tr) = (n, r = None) # deletions tr"
| "deletions (c # tr) = deletions tr"

section \<open>Properties\<close>

subsection \<open>Basic facts\<close>

lemma print_fields [simp]:
  "world (print l s) = world s"
  "environ (print l s) = environ s"
  "stdin (print l s) = stdin s"
  "out (print l s) = out s @ [l]"
  "files (print l s) = files s"
  "read_fault (print l s) = read_fault s"
  "write_fault (print l s) = write_fault s"
  "trace (print l s) = trace s"
  by (simp_all add: print_def)

lemma invoke_fields [simp]:
  "world (snd (invoke c f s)) = snd (f (world s))"
  "environ (snd (invoke c f s)) = environ s"
  "stdin (snd (invoke c f s)) = stdin s"
  "out (snd (invoke c f s)) = out s"
  "files (snd (invoke c f s)) = files s"
  "read_fault (snd (invoke c f s)) = read_fault s"
  "write_fault (snd (invoke c f s)) = write_fault s"
  "trace (snd (invoke c f s)) = trace s @ [(c, error_of (fst (f (world s))))]"
  "fst (invoke c f s) = fst (f (world s))"
  by (simp_all add: invoke_def split: prod.splits)

lemma deletions_append: "deletions (xs @ ys) = deletions xs @ deletions ys"
  by (induction xs rule: deletions.induct) simp_all

lemmas sim_defs =
  sim_host_def sim_list_def sim_delete_endpoint_def sim_delete_endpoint_config_def
  sim_describe_def sim_deploy_def sim_predict_def sim_state_def mk_endpoint_def

subsection \<open>Deleting one endpoint\<close>



subsection \<open>Deleting all endpoints\<close>

lemma fold_print_endpoint_fields [simp]:
  "world (fold print_endpoint eps s) = world s"
  "stdin (fold print_endpoint eps s) = stdin s"
  "trace (fold print_endpoint eps s) = trace s"
  by (induction eps arbitrary: s) (simp_all add: print_endpoint_def Let_def)

lemma fold_print_name_fields [simp]:
  "world (fold print_name eps s) = world s"
  "stdin (fold print_name eps s) = stdin s"
  "trace (fold print_name eps s) = trace s"
  by (induction eps arbitrary: s) (simp_all add: print_name_def)

lemma list_all_endpoints_listed:
  assumes "api_list_endpoints h None 50 (world s) = (Inr response, w)"
    and "Endpoints response = Some eps" and "eps \<noteq> []"
  shows "fst (list_all_endpoints h s) = eps"
    and "world (snd (list_all_endpoints h s)) = w"
    and "stdin (snd (list_all_endpoints h s)) = stdin s"
    and "trace (snd (list_all_endpoints h s)) = trace s @ [(ListEndpoints None 50, None)]"
  using assms by (simp_all add: list_all_endpoints_def invoke_def error_of_def)

text \<open>The three ways through \<^verbatim>\<open>delete_all_endpoints\<close> on a non-empty listing.\<close>

lemma delete_all_endpoints_declined:
  assumes "api_list_endpoints h None 50 (world s) = (Inr response, w)"
    and "Endpoints response = Some eps" and "eps \<noteq> []"
    and "stdin s = l # ls" and "lower l \<noteq> ''yes''"
  shows "\<exists>s4. world s4 = w \<and> trace s4 = trace s @ [(ListEndpoints None 50, None)]
     \<and> delete_all_endpoints h True s = (Inr False, print ''Deletion cancelled.'' s4)"
proof -
  obtain s1 where s1: "list_all_endpoints h s = (eps, s1)"
    using list_all_endpoints_listed(1) [OF assms(1-3)]
    by (cases "list_all_endpoints h s") simp
  have f: "world s1 = w" "stdin s1 = l # ls"
    "trace s1 = trace s @ [(ListEndpoints None 50, None)]"
    using list_all_endpoints_listed(2-4) [OF assms(1-3)] s1 assms(4) by simp_all
  define s4 where
    "s4 = (print ''\<newline>Are you sure? (type 'yes' to confirm): ''
             (fold print_name eps
                (print (''\<newline>This will delete '' @ str_nat (length eps) @ '' endpoint(s):'')
                   s1)))\<lparr>stdin := ls\<rparr>"
  have "delete_all_endpoints h True s = (Inr False, print ''Deletion cancelled.'' s4)"
    using s1 f assms(3,5) by (simp add: delete_all_endpoints_def Let_def input_def s4_def)
  moreover have "world s4 = w" "trace s4 = trace s @ [(ListEndpoints None 50, None)]"
    using f by (simp_all add: s4_def)
  ultimately show ?thesis by blast
qed

lemma delete_all_endpoints_confirmed:
  assumes "api_list_endpoints h None 50 (world s) = (Inr response, w)"
    and "Endpoints response = Some eps" and "eps \<noteq> []"
    and "stdin s = l # ls" and "lower l = ''yes''"
  shows "\<exists>s4. world s4 = w \<and> trace s4 = trace s @ [(ListEndpoints None 50, None)]
     \<and> delete_all_endpoints h True s =
         (Inr (fst (delete_listed h eps s4)), snd (delete_listed h eps s4))"
proof -
  obtain s1 where s1: "list_all_endpoints h s = (eps, s1)"
    using list_all_endpoints_listed(1) [OF assms(1-3)]
    by (cases "list_all_endpoints h s") simp
  have f: "world s1 = w" "stdin s1 = l # ls"
    "trace s1 = trace s @ [(ListEndpoints None 50, None)]"
    using list_all_endpoints_listed(2-4) [OF assms(1-3)] s1 assms(4) by simp_all
  define s4 where
    "s4 = (print ''\<newline>Are you sure? (type 'yes' to confirm): ''
             (fold print_name eps
                (print (''\<newline>This will delete '' @ str_nat (length eps) @ '' endpoint(s):'')
                   s1)))\<lparr>stdin := ls\<rparr>"
  have "delete_all_endpoints h True s =
         (Inr (fst (delete_listed h eps s4)), snd (delete_listed h eps s4))"
    using s1 f assms(3,5)
    by (simp add: delete_all_endpoints_def Let_def input_def s4_def split: prod.splits)
  moreover have "world s4 = w" "trace s4 = trace s @ [(ListEndpoints None 50, None)]"
    using f by (simp_all add: s4_def)
  ultimately show ?thesis by blast
qed

lemma delete_all_endpoints_unconfirmed:
  assumes "api_list_endpoints h None 50 (world s) = (Inr response, w)"
    and "Endpoints response = Some eps" and "eps \<noteq> []"
  shows "\<exists>s1. world s1 = w \<and> trace s1 = trace s @ [(ListEndpoints None 50, None)]
     \<and> delete_all_endpoints h False s =
         (Inr (fst (delete_listed h eps s1)), snd (delete_listed h eps s1))"
proof -
  obtain s1 where s1: "list_all_endpoints h s = (eps, s1)"
    using list_all_endpoints_listed(1) [OF assms(1-3)]
    by (cases "list_all_endpoints h s") simp
  have f: "world s1 = w" "trace s1 = trace s @ [(ListEndpoints None 50, None)]"
    using list_all_endpoints_listed(2,4) [OF assms(1-3)] s1 by simp_all
  have "delete_all_endpoints h False s =
         (Inr (fst (delete_listed h eps s1)), snd (delete_listed h eps s1))"
    using s1 assms(3) by (simp add: delete_all_endpoints_def split: prod.splits)
  with f show ?thesis by blast
qed

text \<open>The loop asks for every endpoint in turn and counts the accepted deletions.\<close>

lemma delete_endpoint_deletions:
  "deletions (trace (snd (delete_endpoint h n dc s))) =
   deletions (trace s) @ [(n, fst (delete_endpoint h n dc s))]"
  by (cases "api_delete_endpoint h n (world s)";
      cases "api_delete_endpoint_config h n (snd (api_delete_endpoint h n (world s)))")
     (auto simp: delete_endpoint_def invoke_def error_of_def Let_def deletions_append
           split: prod.splits sum.splits)


lemma all_kept_iff: "(length (filter P xs) = length xs) = list_all P xs"
proof (induction xs)
  case Nil
  then show ?case by simp
next
  case (Cons x xs)
  have "length (filter P xs) \<noteq> Suc (length xs)"
    using length_filter_le [of P xs] by linarith
  with Cons show ?case by simp
qed


text \<open>The loop against the platform: results, platform and trace agree with the specification.\<close>

lemma spec_delete_each_names: "map fst (fst (spec_delete_each h ns w)) = ns"
proof (induction ns arbitrary: w)
  case Nil
  then show ?case by simp
next
  case (Cons n ns)
  have "map fst (fst (spec_delete_each h ns w')) = ns" for w'
    by (rule Cons.IH)
  then have "spec_delete_each h ns w' = (D, w'') \<Longrightarrow> map fst D = ns" for w' D w''
    by (metis fst_conv)
  then show ?case
    by (auto split: prod.splits sum.splits)
qed

lemma delete_endpoint_platform:
  "api_delete_endpoint h n (world s) = (Inl e, w1) \<Longrightarrow>
     fst (delete_endpoint h n True s) = False \<and> world (snd (delete_endpoint h n True s)) = w1"
  "api_delete_endpoint h n (world s) = (Inr u, w1) \<Longrightarrow>
   api_delete_endpoint_config h n w1 = (r, w2) \<Longrightarrow>
     fst (delete_endpoint h n True s) = True \<and> world (snd (delete_endpoint h n True s)) = w2"
  by (auto simp: delete_endpoint_def invoke_def error_of_def Let_def split: sum.splits)

lemma delete_loop_platform:
  "world (snd (delete_loop h eps k s)) = snd (spec_delete_each h (map EndpointName eps) (world s))
   \<and> deletions (trace (snd (delete_loop h eps k s))) =
       deletions (trace s) @ fst (spec_delete_each h (map EndpointName eps) (world s))
   \<and> fst (delete_loop h eps k s) =
       k + length (filter snd (fst (spec_delete_each h (map EndpointName eps) (world s))))"
proof (induction eps arbitrary: k s)
  case Nil
  then show ?case by simp
next
  case (Cons e eps)
  obtain ok s1 where d: "delete_endpoint h (EndpointName e) True s = (ok, s1)"
    by (cases "delete_endpoint h (EndpointName e) True s")
  have t1: "deletions (trace s1) = deletions (trace s) @ [(EndpointName e, ok)]"
    using delete_endpoint_deletions [of h "EndpointName e" True s] d by simp
  note IH = Cons.IH [of "if ok then k + 1 else k" s1]
  obtain r1 w1 where a: "api_delete_endpoint h (EndpointName e) (world s) = (r1, w1)"
    by (cases "api_delete_endpoint h (EndpointName e) (world s)")
  show ?case
  proof (cases r1)
    case (Inl x)
    with a d delete_endpoint_platform(1) [of h "EndpointName e" s x w1]
    have "ok = False" "world s1 = w1" by simp_all
    with IH a Inl d t1 show ?thesis by (simp split: prod.splits)
  next
    case (Inr u)
    obtain r2 w2 where b: "api_delete_endpoint_config h (EndpointName e) w1 = (r2, w2)"
      by (cases "api_delete_endpoint_config h (EndpointName e) w1")
    with a Inr d delete_endpoint_platform(2) [of h "EndpointName e" s u w1 r2 w2]
    have "ok = True" "world s1 = w2" by simp_all
    with IH a b Inr d t1 show ?thesis by (simp split: prod.splits)
  qed
qed

lemma delete_listed_platform:
  "fst (delete_listed h eps s) =
     list_all snd (fst (spec_delete_each h (map EndpointName eps) (world s)))
   \<and> world (snd (delete_listed h eps s)) = snd (spec_delete_each h (map EndpointName eps) (world s))
   \<and> deletions (trace (snd (delete_listed h eps s))) =
       deletions (trace s) @ fst (spec_delete_each h (map EndpointName eps) (world s))
   \<and> last (out (snd (delete_listed h eps s))) =
       ''\<newline>Successfully deleted '' @
       str_nat (length (filter snd (fst (spec_delete_each h (map EndpointName eps) (world s))))) @
       ''/'' @ str_nat (length eps) @ '' endpoints''"
proof -
  obtain k s' where r: "delete_loop h eps 0 s = (k, s')"
    by (cases "delete_loop h eps 0 s")
  define D where "D = fst (spec_delete_each h (map EndpointName eps) (world s))"
  have p: "world s' = snd (spec_delete_each h (map EndpointName eps) (world s))"
    "deletions (trace s') = deletions (trace s) @ D"
    "k = length (filter snd D)"
    using delete_loop_platform [of h eps 0 s] r by (simp_all add: D_def)
  have "length D = length eps"
    using spec_delete_each_names [of h "map EndpointName eps" "world s"]
    unfolding D_def by (metis length_map)
  then have "(length (filter snd D) = length eps) = list_all snd D"
    using all_kept_iff [of snd D] by simp
  with p r show ?thesis
    unfolding D_def [symmetric] by (simp add: delete_listed_def)
qed

lemma sim_three_deleted:
  "spec_delete_each sim_host [''a'', ''b'', ''c''] sim_three =
     ([(''a'', True), (''b'', False), (''c'', True)],
      sim_three\<lparr>live := [mk_endpoint ''b'' ''InService''], configs := [(''b'', [])]\<rparr>)"
  by (simp add: sim_defs sim_three_def)

text \<open>
  Claim C2. On a non-empty listing, when no confirmation is required or the operator
  answers yes, \<^verbatim>\<open>delete_all_endpoints\<close> does on the platform what the specification
  says: starting from the platform the listing left, every listed endpoint is deleted
  in listing order, a failure not stopping the loop, and the platform is left as those
  calls leave it. The deletions in the trace are these, with their outcomes; the result
  is \<^verbatim>\<open>True\<close> exactly when the platform deleted every endpoint; and the last printed
  line reports the number of endpoints the platform deleted over the number listed.
\<close>

theorem delete_all_attempts_every_endpoint:
  assumes "api_list_endpoints h None 50 (world s) = (Inr response, w)"
    and "Endpoints response = Some eps" and "eps \<noteq> []"
    and "\<not> confirm \<or> (\<exists>l ls. stdin s = l # ls \<and> lower l = ''yes'')"
  shows "fst (delete_all_endpoints h confirm s) =
           Inr (list_all snd (fst (spec_delete_each h (map EndpointName eps) w)))
      \<and> world (snd (delete_all_endpoints h confirm s)) =
           snd (spec_delete_each h (map EndpointName eps) w)
      \<and> map fst (fst (spec_delete_each h (map EndpointName eps) w)) = map EndpointName eps
      \<and> deletions (trace (snd (delete_all_endpoints h confirm s))) =
           deletions (trace s) @ fst (spec_delete_each h (map EndpointName eps) w)
      \<and> last (out (snd (delete_all_endpoints h confirm s))) =
          ''\<newline>Successfully deleted '' @
          str_nat (length (filter snd (fst (spec_delete_each h (map EndpointName eps) w)))) @
          ''/'' @ str_nat (length eps) @ '' endpoints''"
proof -
  have "\<exists>s4. world s4 = w \<and> deletions (trace s4) = deletions (trace s)
     \<and> delete_all_endpoints h confirm s =
         (Inr (fst (delete_listed h eps s4)), snd (delete_listed h eps s4))"
  proof (cases confirm)
    case False
    obtain s1 where s1: "world s1 = w" "trace s1 = trace s @ [(ListEndpoints None 50, None)]"
      "delete_all_endpoints h False s =
         (Inr (fst (delete_listed h eps s1)), snd (delete_listed h eps s1))"
      using delete_all_endpoints_unconfirmed [OF assms(1-3)] by blast
    have "deletions (trace s1) = deletions (trace s)"
      using s1(2) by (simp add: deletions_append)
    with s1(1,3) False show ?thesis
      by (intro exI [of _ s1]) simp
  next
    case True
    then obtain l ls where l: "stdin s = l # ls" "lower l = ''yes''"
      using assms(4) by blast
    obtain s4 where s4: "world s4 = w" "trace s4 = trace s @ [(ListEndpoints None 50, None)]"
      "delete_all_endpoints h True s =
         (Inr (fst (delete_listed h eps s4)), snd (delete_listed h eps s4))"
      using delete_all_endpoints_confirmed [OF assms(1-3) l] by blast
    have "deletions (trace s4) = deletions (trace s)"
      using s4(2) by (simp add: deletions_append)
    with s4(1,3) True show ?thesis
      by (intro exI [of _ s4]) simp
  qed
  then obtain s4 where s4: "world s4 = w" "deletions (trace s4) = deletions (trace s)"
    "delete_all_endpoints h confirm s =
       (Inr (fst (delete_listed h eps s4)), snd (delete_listed h eps s4))"
    by blast
  show ?thesis
    using delete_listed_platform [of h eps s4] s4(1,2)
      spec_delete_each_names [of h "map EndpointName eps" w]
    unfolding s4(3) by simp
qed

theorem delete_all_attempts_every_endpoint_witness:
  "api_list_endpoints sim_host None 50 (world (sim_state sim_three [''YES''])) =
     (Inr \<lparr>Endpoints = Some (live sim_three)\<rparr>, sim_three)
   \<and> live sim_three \<noteq> []
   \<and> stdin (sim_state sim_three [''YES'']) = [''YES'']
   \<and> lower ''YES'' = ''yes''
   \<and> fst (delete_all_endpoints sim_host True (sim_state sim_three [''YES''])) = Inr False
   \<and> world (snd (delete_all_endpoints sim_host True (sim_state sim_three [''YES'']))) =
       sim_three\<lparr>live := [mk_endpoint ''b'' ''InService''], configs := [(''b'', [])]\<rparr>
   \<and> deletions (trace (snd (delete_all_endpoints sim_host True
                               (sim_state sim_three [''YES''])))) =
       [(''a'', True), (''b'', False), (''c'', True)]
   \<and> last (out (snd (delete_all_endpoints sim_host True (sim_state sim_three [''YES''])))) =
       ''\<newline>Successfully deleted 2/3 endpoints''"
proof -
  have a: "api_list_endpoints sim_host None 50 (world (sim_state sim_three [''YES''])) =
     (Inr \<lparr>Endpoints = Some (live sim_three)\<rparr>, sim_three)"
    by (simp add: sim_defs sim_three_def)
  have b: "Endpoints \<lparr>Endpoints = Some (live sim_three)\<rparr> = Some (live sim_three)"
    by simp
  have c: "live sim_three \<noteq> []"
    and n: "map EndpointName (live sim_three) = [''a'', ''b'', ''c'']"
    by (simp_all add: sim_three_def mk_endpoint_def)
  have i: "stdin (sim_state sim_three [''YES'']) = [''YES'']"
    and t: "trace (sim_state sim_three [''YES'']) = []"
    by (simp_all add: sim_state_def)
  have y: "lower ''YES'' = ''yes''"
    by (simp add: lower_def lower_char_def)
  have d: "\<not> True \<or> (\<exists>l ls. stdin (sim_state sim_three [''YES'']) = l # ls \<and> lower l = ''yes'')"
    using i y by blast
  have l: "length (live sim_three) = 3"
    by (simp add: sim_three_def)
  from delete_all_attempts_every_endpoint [OF a b c d] a c i y
  show ?thesis
    unfolding n sim_three_deleted t l
    by (simp add: str_nat.simps digit_char_def)
qed

text \<open>
  The scenario of the specification: three endpoints, the second deletion fails;
  all three are attempted, the report is 2/3 and the result is \<^verbatim>\<open>False\<close>.
\<close>

lemma delete_all_three_one_fails:
  "fst (delete_all_endpoints sim_host True (sim_state sim_three [''YES''])) = Inr False"
  "deletions (trace (snd (delete_all_endpoints sim_host True (sim_state sim_three [''YES''])))) =
     [(''a'', True), (''b'', False), (''c'', True)]"
  "last (out (snd (delete_all_endpoints sim_host True (sim_state sim_three [''YES''])))) =
     ''\<newline>Successfully deleted 2/3 endpoints''"
  by (simp_all add: delete_all_endpoints_def list_all_endpoints_def delete_listed_def
        delete_endpoint_def invoke_def input_def error_of_def print_def print_endpoint_def
        print_name_def sim_defs sim_three_def lower_def lower_char_def Let_def
        str_nat.simps digit_char_def)

text \<open>
  Claim C6. When confirmation is required on a non-empty listing and the operator's
  answer is not yes, \<^verbatim>\<open>delete_all_endpoints\<close> returns \<^verbatim>\<open>False\<close>, the only call made
  to the platform is the listing (so the platform is left as the listing left it),
  and the last printed line is \<^verbatim>\<open>Deletion cancelled.\<close>
\<close>

theorem delete_all_declined_deletes_nothing:
  assumes "api_list_endpoints h None 50 (world s) = (Inr response, w)"
    and "Endpoints response = Some eps" and "eps \<noteq> []"
    and "stdin s = l # ls" and "lower l \<noteq> ''yes''"
  shows "fst (delete_all_endpoints h True s) = Inr False
    \<and> trace (snd (delete_all_endpoints h True s)) = trace s @ [(ListEndpoints None 50, None)]
    \<and> world (snd (delete_all_endpoints h True s)) = w
    \<and> last (out (snd (delete_all_endpoints h True s))) = ''Deletion cancelled.''"
  using delete_all_endpoints_declined [OF assms] by auto

theorem delete_all_declined_deletes_nothing_witness:
  "api_list_endpoints sim_host None 50 (world (sim_state sim_three [''no''])) =
     (Inr \<lparr>Endpoints = Some (live sim_three)\<rparr>, sim_three)
   \<and> live sim_three \<noteq> []
   \<and> stdin (sim_state sim_three [''no'']) = [''no'']
   \<and> lower ''no'' \<noteq> ''yes''
   \<and> fst (delete_all_endpoints sim_host True (sim_state sim_three [''no''])) = Inr False
   \<and> trace (snd (delete_all_endpoints sim_host True (sim_state sim_three [''no'']))) =
       [(ListEndpoints None 50, None)]
   \<and> world (snd (delete_all_endpoints sim_host True (sim_state sim_three [''no'']))) = sim_three"
proof -
  have a: "api_list_endpoints sim_host None 50 (world (sim_state sim_three [''no''])) =
     (Inr \<lparr>Endpoints = Some (live sim_three)\<rparr>, sim_three)"
    by (simp add: sim_defs sim_three_def)
  have b: "Endpoints \<lparr>Endpoints = Some (live sim_three)\<rparr> = Some (live sim_three)"
    by simp
  have c: "live sim_three \<noteq> []"
    by (simp add: sim_three_def)
  have d: "stdin (sim_state sim_three [''no'']) = [''no'']"
    by (simp add: sim_state_def)
  have e: "lower ''no'' \<noteq> ''yes''"
    by (simp add: lower_def lower_char_def)
  have t: "trace (sim_state sim_three [''no'']) = []"
    by (simp add: sim_state_def)
  from delete_all_declined_deletes_nothing [OF a b c d e] a c d e t show ?thesis
    by simp
qed



text \<open>The answers named in the claim, and some that do confirm.\<close>

lemma confirmation_examples:
  "lower ''y'' \<noteq> ''yes''"
  "lower ''Yes please'' \<noteq> ''yes''"
  "lower [] \<noteq> ''yes''"
  "lower ''yes '' \<noteq> ''yes''"
  "lower ''yes'' = ''yes''"
  "lower ''YES'' = ''yes''"
  "lower ''yEs'' = ''yes''"
  by (simp_all add: lower_def lower_char_def)

subsection \<open>Listing\<close>

text \<open>
  Claim C4, as the code has it. \<^verbatim>\<open>list_all_endpoints\<close> and
  \<^verbatim>\<open>SageMakerDeployer.list_endpoints\<close> do not raise. When the platform call raises,
  they print \<^verbatim>\<open>Failed to list endpoints: ...\<close> and return the empty list; when the
  platform reports no endpoint, they print that none was found and return the empty
  list. The value returned is the same in both cases.
\<close>

theorem listing_failure_returns_empty:
  "(api_list_endpoints h None 50 (world s) = (Inl e, w) \<longrightarrow>
      list_all_endpoints h s =
        ([], s\<lparr>world := w, trace := trace s @ [(ListEndpoints None 50, Some e)],
               out := out s @ [''Failed to list endpoints: '' @ str_exn e]\<rparr>))
   \<and> (api_list_endpoints h None 50 (world s) = (Inr response, w) \<and>
      (Endpoints response = None \<or> Endpoints response = Some []) \<longrightarrow>
      list_all_endpoints h s =
        ([], s\<lparr>world := w, trace := trace s @ [(ListEndpoints None 50, None)],
               out := out s @ [''No endpoints found.'']\<rparr>))
   \<and> (api_list_endpoints h (Some ''InService'') 50 (world s) = (Inl e, w) \<longrightarrow>
      list_endpoints h s =
        ([], s\<lparr>world := w,
               trace := trace s @ [(ListEndpoints (Some ''InService'') 50, Some e)],
               out := out s @ [''Failed to list endpoints: '' @ str_exn e]\<rparr>))
   \<and> (api_list_endpoints h (Some ''InService'') 50 (world s) = (Inr response, w) \<and>
      (Endpoints response = None \<or> Endpoints response = Some []) \<longrightarrow>
      list_endpoints h s =
        ([], s\<lparr>world := w,
               trace := trace s @ [(ListEndpoints (Some ''InService'') 50, None)],
               out := out s @ [''No active endpoints found.'']\<rparr>))"
  by (auto simp: list_all_endpoints_def list_endpoints_def invoke_def error_of_def print_def)

theorem listing_failure_returns_empty_witness:
  "api_list_endpoints sim_host None 50 (world (sim_state sim_down [])) =
     (Inl (Exn ClientError ''connection refused''), sim_down)
   \<and> api_list_endpoints sim_host (Some ''InService'') 50 (world (sim_state sim_down [])) =
     (Inl (Exn ClientError ''connection refused''), sim_down)
   \<and> list_all_endpoints sim_host (sim_state sim_down []) =
       ([], (sim_state sim_down [])
              \<lparr>trace := [(ListEndpoints None 50, Some (Exn ClientError ''connection refused''))],
               out := [''Failed to list endpoints: connection refused'']\<rparr>)
   \<and> list_endpoints sim_host (sim_state sim_down []) =
       ([], (sim_state sim_down [])
              \<lparr>trace := [(ListEndpoints (Some ''InService'') 50,
                          Some (Exn ClientError ''connection refused''))],
               out := [''Failed to list endpoints: connection refused'']\<rparr>)
   \<and> api_list_endpoints sim_host None 50 (world (sim_state sim_empty [])) =
     (Inr \<lparr>Endpoints = Some []\<rparr>, sim_empty)
   \<and> api_list_endpoints sim_host (Some ''InService'') 50 (world (sim_state sim_empty [])) =
     (Inr \<lparr>Endpoints = Some []\<rparr>, sim_empty)
   \<and> list_all_endpoints sim_host (sim_state sim_empty []) =
       ([], (sim_state sim_empty [])
              \<lparr>trace := [(ListEndpoints None 50, None)], out := [''No endpoints found.'']\<rparr>)
   \<and> list_endpoints sim_host (sim_state sim_empty []) =
       ([], (sim_state sim_empty [])
              \<lparr>trace := [(ListEndpoints (Some ''InService'') 50, None)],
               out := [''No active endpoints found.'']\<rparr>)"
proof -
  have a: "api_list_endpoints sim_host None 50 (world (sim_state sim_down [])) =
     (Inl (Exn ClientError ''connection refused''), sim_down)"
    by (simp add: sim_defs sim_down_def)
  have b: "api_list_endpoints sim_host (Some ''InService'') 50 (world (sim_state sim_down [])) =
     (Inl (Exn ClientError ''connection refused''), sim_down)"
    by (simp add: sim_defs sim_down_def)
  have c: "api_list_endpoints sim_host None 50 (world (sim_state sim_empty [])) =
     (Inr \<lparr>Endpoints = Some []\<rparr>, sim_empty)"
    by (simp add: sim_defs sim_empty_def)
  have d: "api_list_endpoints sim_host (Some ''InService'') 50 (world (sim_state sim_empty [])) =
     (Inr \<lparr>Endpoints = Some []\<rparr>, sim_empty)"
    by (simp add: sim_defs sim_empty_def)
  have o: "out (sim_state w []) = []" "trace (sim_state w []) = []"
    "(sim_state w [])\<lparr>world := w\<rparr> = sim_state w []" for w
    by (simp_all add: sim_state_def)
  from listing_failure_returns_empty
         [of sim_host "sim_state sim_down []" "Exn ClientError ''connection refused''" sim_down]
       listing_failure_returns_empty
         [of sim_host "sim_state sim_empty []" _ sim_empty "\<lparr>Endpoints = Some []\<rparr>"]
       a b c d o
  show ?thesis by simp
qed

text \<open>
  The claim as stated fails: the platform call raises \<^verbatim>\<open>ClientError\<close> on one platform
  and reports no endpoint on the other, and both listing functions return the empty
  list on both; \<^verbatim>\<open>delete_all_endpoints\<close> then reports success on the failed listing.
\<close>

theorem listing_failure_counterexample:
  "fst (api_list_endpoints sim_host None 50 (world (sim_state sim_down []))) =
     Inl (Exn ClientError ''connection refused'')
   \<and> fst (api_list_endpoints sim_host None 50 (world (sim_state sim_empty []))) =
     Inr \<lparr>Endpoints = Some []\<rparr>
   \<and> fst (list_all_endpoints sim_host (sim_state sim_down [])) = []
   \<and> fst (list_all_endpoints sim_host (sim_state sim_empty [])) = []
   \<and> fst (list_endpoints sim_host (sim_state sim_down [])) = []
   \<and> fst (list_endpoints sim_host (sim_state sim_empty [])) = []
   \<and> fst (delete_all_endpoints sim_host True (sim_state sim_down [])) = Inr True"
  by (simp add: list_all_endpoints_def list_endpoints_def delete_all_endpoints_def
        invoke_def error_of_def sim_defs sim_down_def sim_empty_def)

subsection \<open>Cost estimation\<close>

lemma print_variant_fields [simp]:
  "world (print_variant n t c s) = world s"
  "trace (print_variant n t c s) = trace s"
  by (simp_all add: print_variant_def Let_def)

text \<open>One endpoint in service with one variant: the estimate is that variant's cost.\<close>

lemma estimate_costs_single:
  assumes "api_list_endpoints h None 50 (world s) = (Inr response, w1)"
    and "Endpoints response = Some [e]" and "EndpointStatus e = ''InService''"
    and "api_describe_endpoint_config h (EndpointName e) w1 = (Inr cfg, w2)"
    and "ProductionVariants cfg = [\<lparr>InstanceType = Some t, InitialInstanceCount = Some n\<rparr>]"
  shows "fst (estimate_costs h s) = hourly_cost t n"
    and "''    Cost: $'' @ format_f 3 (hourly_cost t n) @ ''/hour''
           \<in> set (out (snd (estimate_costs h s)))"
  using assms
  by (simp_all add: estimate_costs_def list_all_endpoints_def invoke_def error_of_def
        Let_def print_variant_def print_endpoint_def split: prod.splits)

lemma rate_g5_xlarge: "instance_costs_get ''ml.g5.xlarge'' = 1408 / 1000"
  by (simp add: instance_costs_get_def instance_costs_def)

lemma sim_g5_calls:
  "api_list_endpoints sim_host None 50 (world (sim_state sim_g5 [])) =
     (Inr \<lparr>Endpoints = Some [mk_endpoint ''a'' ''InService'']\<rparr>, sim_g5)"
  "api_describe_endpoint_config sim_host (EndpointName (mk_endpoint ''a'' ''InService'')) sim_g5 =
     (Inr \<lparr>ProductionVariants =
             [\<lparr>InstanceType = Some ''ml.g5.xlarge'', InitialInstanceCount = Some 2\<rparr>]\<rparr>, sim_g5)"
  by (simp_all add: sim_defs sim_g5_def)


text \<open>
  Claim C1, as the code has it. The table gives \<^verbatim>\<open>ml.g5.xlarge\<close> the rate 1.408 (1.515
  is the rate of \<^verbatim>\<open>ml.g5.2xlarge\<close>), so the hourly cost of a variant of two
  \<^verbatim>\<open>ml.g5.xlarge\<close> instances is 1.408 times 2, that is 2.816: the rate of the instance
  type times the instance count. For one endpoint in service with that single variant
  \<^verbatim>\<open>estimate_costs\<close> returns 2.816 and prints the cost line \<^verbatim>\<open>$2.816/hour\<close>.
\<close>

theorem g5_xlarge_two_instances_cost:
  "hourly_cost ''ml.g5.xlarge'' 2 = 1408 / 1000 * 2
   \<and> hourly_cost ''ml.g5.xlarge'' 2 = 2816 / 1000
   \<and> (api_list_endpoints h None 50 (world s) = (Inr response, w1) \<and>
      Endpoints response = Some [e] \<and> EndpointStatus e = ''InService'' \<and>
      api_describe_endpoint_config h (EndpointName e) w1 = (Inr cfg, w2) \<and>
      ProductionVariants cfg =
        [\<lparr>InstanceType = Some ''ml.g5.xlarge'', InitialInstanceCount = Some 2\<rparr>] \<longrightarrow>
      fst (estimate_costs h s) = 2816 / 1000 \<and>
      ''    Cost: $2.816/hour'' \<in> set (out (snd (estimate_costs h s))))"
proof (intro conjI impI)
  show a: "hourly_cost ''ml.g5.xlarge'' 2 = 1408 / 1000 * 2"
    by (simp add: hourly_cost_def rate_g5_xlarge)
  then show b: "hourly_cost ''ml.g5.xlarge'' 2 = 2816 / 1000"
    by simp
  have f: "format_f 3 (2816 / 1000) = ''2.816''"
    by (simp add: format_f_def round_half_even_def zfill_def str_nat.simps digit_char_def)
  assume h: "api_list_endpoints h None 50 (world s) = (Inr response, w1) \<and>
      Endpoints response = Some [e] \<and> EndpointStatus e = ''InService'' \<and>
      api_describe_endpoint_config h (EndpointName e) w1 = (Inr cfg, w2) \<and>
      ProductionVariants cfg =
        [\<lparr>InstanceType = Some ''ml.g5.xlarge'', InitialInstanceCount = Some 2\<rparr>]"
  then show "fst (estimate_costs h s) = 2816 / 1000"
    using estimate_costs_single(1) [of h s response w1 e cfg w2 "''ml.g5.xlarge''" 2] b
    by simp
  from h show "''    Cost: $2.816/hour'' \<in> set (out (snd (estimate_costs h s)))"
    using estimate_costs_single(2) [of h s response w1 e cfg w2 "''ml.g5.xlarge''" 2] b f
    by simp
qed

theorem g5_xlarge_two_instances_cost_witness:
  "api_list_endpoints sim_host None 50 (world (sim_state sim_g5 [])) =
     (Inr \<lparr>Endpoints = Some [mk_endpoint ''a'' ''InService'']\<rparr>, sim_g5)
   \<and> EndpointStatus (mk_endpoint ''a'' ''InService'') = ''InService''
   \<and> api_describe_endpoint_config sim_host (EndpointName (mk_endpoint ''a'' ''InService''))
       sim_g5 =
     (Inr \<lparr>ProductionVariants =
             [\<lparr>InstanceType = Some ''ml.g5.xlarge'', InitialInstanceCount = Some 2\<rparr>]\<rparr>, sim_g5)
   \<and> fst (estimate_costs sim_host (sim_state sim_g5 [])) = 2816 / 1000
   \<and> ''    Cost: $2.816/hour'' \<in> set (out (snd (estimate_costs sim_host (sim_state sim_g5 []))))"
proof -
  have st: "EndpointStatus (mk_endpoint ''a'' ''InService'') = ''InService''"
    by (simp add: mk_endpoint_def)
  from g5_xlarge_two_instances_cost
         [of sim_host "sim_state sim_g5 []"
             "\<lparr>Endpoints = Some [mk_endpoint ''a'' ''InService'']\<rparr>" sim_g5
             "mk_endpoint ''a'' ''InService''"
             "\<lparr>ProductionVariants =
                [\<lparr>InstanceType = Some ''ml.g5.xlarge'', InitialInstanceCount = Some 2\<rparr>]\<rparr>"
             sim_g5]
       sim_g5_calls st
  show ?thesis by simp
qed

text \<open>
  The claim as stated fails: for one endpoint in service on two \<^verbatim>\<open>ml.g5.xlarge\<close>
  the estimate is not 1.515 times 2.
\<close>

theorem g5_xlarge_cost_counterexample:
  "fst (estimate_costs sim_host (sim_state sim_g5 [])) \<noteq> 1515 / 1000 * 2
   \<and> hourly_cost ''ml.g5.xlarge'' 2 \<noteq> 303 / 100"
  by (simp add: estimate_costs_def list_all_endpoints_def invoke_def error_of_def
        Let_def print_variant_def print_endpoint_def sim_defs sim_g5_def hourly_cost_def
        rate_g5_xlarge)



subsection \<open>Deploying\<close>

lemma name_or_timestamp_fields [simp]:
  "environ (snd (name_or_timestamp h n s)) = environ s"
  "trace (snd (name_or_timestamp h n s)) = trace s"
  "out (snd (name_or_timestamp h n s)) = out s"
  "files (snd (name_or_timestamp h n s)) = files s"
  "write_fault (snd (name_or_timestamp h n s)) = write_fault s"
  by (simp_all add: name_or_timestamp_def split: option.splits prod.splits)

lemma name_or_timestamp_nonempty: "fst (name_or_timestamp h n s) \<noteq> []"
  by (auto simp: name_or_timestamp_def py_or_def split: option.splits prod.splits if_splits)

lemma huggingface_model_environ:
  "environ s = environ s' \<Longrightarrow> huggingface_model self m s = huggingface_model self m s'"
  by (simp add: huggingface_model_def getenv_default_def)

text \<open>
  Claim C9. When the model object and the endpoint are created and the test call
  raises, \<^verbatim>\<open>deploy_model\<close> still returns status \<^verbatim>\<open>success\<close> with the endpoint name
  and the predictor. The calls it made are the creation of the model, the deployment
  and one test call: the test is not repeated and nothing is deleted.
\<close>

theorem smoke_test_failure_keeps_success:
  assumes "name_or_timestamp h endpoint_name_arg s = (name, s1)"
    and "spec = huggingface_model self (py_or model_id_arg (getenv ''MODEL_ID'' s)) s"
    and "args = deploy_arguments n (py_or instance_type_arg (getenv ''INSTANCE_TYPE'' s)) name"
    and "api_model h spec (world s1) = (Inr (), w2)"
    and "api_deploy h spec args w2 = (Inr p, w3)"
    and "api_predict h p test_payload w3 = (Inl e, w4)"
  shows "fst (deploy_model h self model_id_arg instance_type_arg n endpoint_name_arg s) =
           \<lparr>status = ''success'', endpoint_name = Some name, result_predictor = Some p,
            error = None\<rparr>
    \<and> trace (snd (deploy_model h self model_id_arg instance_type_arg n endpoint_name_arg s)) =
        trace s @ [(NewModel spec, None), (Deploy spec args, None),
                   (Predict p test_payload, Some e)]
    \<and> world (snd (deploy_model h self model_id_arg instance_type_arg n endpoint_name_arg s)) = w4"
proof -
  have env: "environ s1 = environ s" and tr: "trace s1 = trace s"
    using name_or_timestamp_fields(1,2) [of h endpoint_name_arg s] assms(1) by simp_all
  define s4 where "s4 = print (''Endpoint name: '' @ name)
      (print (''Instance type: '' @ str_opt (py_or instance_type_arg (getenv ''INSTANCE_TYPE'' s)))
        (print (''Deploying model: '' @ str_opt (py_or model_id_arg (getenv ''MODEL_ID'' s))) s1))"
  have sp: "huggingface_model self (py_or model_id_arg (getenv ''MODEL_ID'' s)) s4 = spec"
    unfolding assms(2) by (rule huggingface_model_environ) (simp add: s4_def env)
  show ?thesis
    using assms(1,4-6) sp tr unfolding s4_def assms(3)
    by (simp add: deploy_model_def test_endpoint_def invoke_def error_of_def Let_def)
qed

theorem smoke_test_failure_keeps_success_witness:
  "api_predict sim_host \<lparr>predictor_endpoint = ''e1''\<rparr> test_payload
       (snd (sim_deploy (huggingface_model sim_self (Some ''m'') (sim_state sim_flaky []))
               (deploy_arguments 2 (Some ''ml.g5.xlarge'') ''e1'') sim_flaky)) =
     (Inl (Exn ClientError ''model error''),
      snd (sim_deploy (huggingface_model sim_self (Some ''m'') (sim_state sim_flaky []))
               (deploy_arguments 2 (Some ''ml.g5.xlarge'') ''e1'') sim_flaky))
   \<and> fst (deploy_model sim_host sim_self (Some ''m'') (Some ''ml.g5.xlarge'') 2 (Some ''e1'')
            (sim_state sim_flaky [])) =
       \<lparr>status = ''success'', endpoint_name = Some ''e1'',
        result_predictor = Some \<lparr>predictor_endpoint = ''e1''\<rparr>, error = None\<rparr>
   \<and> map snd (trace (snd (deploy_model sim_host sim_self (Some ''m'') (Some ''ml.g5.xlarge'') 2
                             (Some ''e1'') (sim_state sim_flaky [])))) =
       [None, None, Some (Exn ClientError ''model error'')]"
proof -
  define s0 where "s0 = sim_state sim_flaky []"
  define spec where "spec = huggingface_model sim_self (py_or (Some ''m'') (getenv ''MODEL_ID'' s0)) s0"
  define args where
    "args = deploy_arguments 2 (py_or (Some ''ml.g5.xlarge'') (getenv ''INSTANCE_TYPE'' s0)) ''e1''"
  define w3 where "w3 = snd (sim_deploy spec args sim_flaky)"
  have sp: "spec = huggingface_model sim_self (Some ''m'') (sim_state sim_flaky [])"
    by (simp add: spec_def s0_def py_or_def)
  have ar: "args = deploy_arguments 2 (Some ''ml.g5.xlarge'') ''e1''"
    by (simp add: args_def py_or_def)
  have a: "name_or_timestamp sim_host (Some ''e1'') s0 = (''e1'', s0)"
    by (simp add: name_or_timestamp_def py_or_def)
  have b: "api_model sim_host spec (world s0) = (Inr (), sim_flaky)"
    by (simp add: sim_host_def s0_def sim_state_def)
  have c: "api_deploy sim_host spec args sim_flaky = (Inr \<lparr>predictor_endpoint = ''e1''\<rparr>, w3)"
    by (simp add: w3_def sim_host_def sim_deploy_def sim_flaky_def ar deploy_arguments_def)
  have d: "api_predict sim_host \<lparr>predictor_endpoint = ''e1''\<rparr> test_payload w3 =
             (Inl (Exn ClientError ''model error''), w3)"
    by (simp add: w3_def sim_host_def sim_deploy_def sim_predict_def sim_flaky_def ar
          deploy_arguments_def)
  have t: "trace s0 = []"
    by (simp add: s0_def sim_state_def)
  from smoke_test_failure_keeps_success [OF a spec_def args_def b c d]
  show ?thesis
    using d t unfolding sp ar w3_def s0_def by simp
qed

lemma deploy_model_success_name:
  assumes "status (fst (deploy_model h self m i n e s)) = ''success''"
  shows "\<exists>name. endpoint_name (fst (deploy_model h self m i n e s)) = Some name \<and> name \<noteq> []"
  using assms name_or_timestamp_nonempty [of h e s]
  by (auto simp: deploy_model_def deploy_failed_def test_endpoint_def Let_def
           split: prod.splits sum.splits)

lemma deploy_arguments_fields:
  "da_initial_instance_count (deploy_arguments n t name) = n"
  "da_instance_type (deploy_arguments n t name) = t"
  "da_endpoint_name (deploy_arguments n t name) = name"
  by (simp_all add: deploy_arguments_def)

lemmas run_defs =
  main_def SageMakerDeployer_init_def deploy_model_def test_endpoint_def name_or_timestamp_def
  save_endpoint_info_def lifecycle_record_def deploy_arguments_fields
  invoke_def error_of_def py_or_def getenv_def getenv_default_def str_opt_def Let_def

text \<open>
  Claim C3, as the code has it. When the deployment succeeded and the record file
  cannot be opened for writing, \<^verbatim>\<open>main\<close> does not return the result: the error of the
  write leaves \<^verbatim>\<open>main\<close>. Before that, the completion of the deployment and the
  endpoint name have been printed; the platform, the trace and the files are as
  \<^verbatim>\<open>deploy_model\<close> left them, so nothing is deleted or rolled back.
\<close>

theorem record_write_failure_leaves_main:
  assumes "SageMakerDeployer_init h None
             (print (replicate 50 CHR ''='') (print ''SageMaker Model Deployment'' s)) =
           (Inr self, s2)"
    and "deploy_model h self None None 1 None s2 = (res, s3)"
    and "status res = ''success''" and "endpoint_name res = Some name"
    and "write_fault s3 ''endpoint_info.json'' = Some e"
  shows "main h s =
           (Inl e, s3\<lparr>out := out s3 @
              [''\<newline>Deployment completed!'', ''Endpoint: '' @ name,
               ''\<newline>Remember to delete the endpoint when done to avoid charges'']\<rparr>)"
  using assms by (simp add: main_def save_endpoint_info_def Let_def print_def)

theorem record_write_failure_leaves_main_witness:
  "status sim_result = ''success''
   \<and> write_fault sim_readonly ''endpoint_info.json'' =
       Some (Exn PermissionError ''[Errno 13] Permission denied'')
   \<and> fst (main sim_host sim_readonly) = Inl (Exn PermissionError ''[Errno 13] Permission denied'')
   \<and> last (out (snd (main sim_host sim_readonly))) =
       ''\<newline>Remember to delete the endpoint when done to avoid charges''"
proof -
  define s1 where
    "s1 = print (replicate 50 CHR ''='') (print ''SageMaker Model Deployment'' sim_readonly)"
  define s2 where "s2 = snd (SageMakerDeployer_init sim_host None s1)"
  define s3 where "s3 = snd (deploy_model sim_host sim_self None None 1 None s2)"
  have "fst (SageMakerDeployer_init sim_host None s1) = Inr sim_self"
    by (simp add: s1_def run_defs sim_defs sim_readonly_def sim_self_def)
  then have a: "SageMakerDeployer_init sim_host None s1 = (Inr sim_self, s2)"
    unfolding s2_def by (metis prod.collapse)
  have "fst (deploy_model sim_host sim_self None None 1 None s2) = sim_result"
    by (simp add: s1_def s2_def run_defs sim_defs sim_readonly_def sim_flaky_def sim_result_def)
  then have b: "deploy_model sim_host sim_self None None 1 None s2 = (sim_result, s3)"
    unfolding s3_def by (metis prod.collapse)
  have c: "status sim_result = ''success''"
    and d: "endpoint_name sim_result = Some ''better-sql-agent-20250101-120000''"
    by (simp_all add: sim_result_def)
  have e: "write_fault s3 ''endpoint_info.json'' =
             Some (Exn PermissionError ''[Errno 13] Permission denied'')"
    by (simp add: s1_def s2_def s3_def run_defs sim_defs sim_readonly_def sim_flaky_def)
  have f: "write_fault sim_readonly ''endpoint_info.json'' =
             Some (Exn PermissionError ''[Errno 13] Permission denied'')"
    by (simp add: sim_readonly_def)
  from record_write_failure_leaves_main [OF a [unfolded s1_def] b c d e] c f
  show ?thesis by simp
qed

text \<open>
  The claim as stated fails: the endpoint is created, the record file cannot be
  written, and \<^verbatim>\<open>main\<close> ends with the \<^verbatim>\<open>PermissionError\<close> instead of returning the
  successful result; the endpoint stays on the platform.
\<close>

theorem record_write_failure_counterexample:
  "fst (main sim_host sim_readonly) = Inl (Exn PermissionError ''[Errno 13] Permission denied'')
   \<and> map EndpointName (live (world (snd (main sim_host sim_readonly)))) =
       [''better-sql-agent-20250101-120000'']"
  by (simp add: run_defs sim_defs sim_readonly_def sim_flaky_def)






end
